theory Spec2Isabelle
  imports Main "HOL-Library.AList"
begin

section \<open>Editor positions, ranges and selections\<close>

text \<open>
  The module under study is \<^verbatim>\<open>extensions/emmet/src/abbreviationActions.ts\<close>. It works on
  the editor's positions, ranges and selections, which are classes of the editor platform
  and not part of the module. Lines and columns are non-negative numbers there (the
  constructor of a position rejects a negative one), so they are naturals here.
\<close>

record Position =
  line :: nat
  character :: nat

text \<open>
  Modelled from the spec: the comparison of positions of the editor platform, which is
  not among the sources. A position is before another when its line is smaller, or the
  lines agree and its column is smaller; "after" is the strict converse.
\<close>

definition isBefore :: "Position \<Rightarrow> Position \<Rightarrow> bool" where
  "isBefore p q = (line p < line q \<or> (line p = line q \<and> character p < character q))"

definition isAfter :: "Position \<Rightarrow> Position \<Rightarrow> bool" where
  "isAfter p q = (line q < line p \<or> (line p = line q \<and> character q < character p))"

definition isBeforeOrEqual :: "Position \<Rightarrow> Position \<Rightarrow> bool" where
  "isBeforeOrEqual p q = (line p < line q \<or> (line p = line q \<and> character p \<le> character q))"

record Range =
  range_start :: Position
  range_end :: Position

text \<open>
  Modelled from the spec: the constructor of a range of the editor platform, which is not
  among the sources. A range is well-formed (start before or equal to end); the constructor
  puts the earlier of its two positions first.
\<close>

definition newRange :: "Position \<Rightarrow> Position \<Rightarrow> Range" where
  "newRange a b =
     (if isBefore a b then \<lparr>range_start = a, range_end = b\<rparr>
      else \<lparr>range_start = b, range_end = a\<rparr>)"

definition newRange4 :: "nat \<Rightarrow> nat \<Rightarrow> nat \<Rightarrow> nat \<Rightarrow> Range" where
  "newRange4 sl sc el ec =
     newRange \<lparr>line = sl, character = sc\<rparr> \<lparr>line = el, character = ec\<rparr>"

text \<open>
  Modelled from the spec: a range is empty when its start equals its end, and on a single
  line when its start and its end are on the same line.
\<close>

definition isEmpty :: "Range \<Rightarrow> bool" where
  "isEmpty r = (range_start r = range_end r)"

definition isSingleLine :: "Range \<Rightarrow> bool" where
  "isSingleLine r = (line (range_start r) = line (range_end r))"

text \<open>
  Modelled from the spec: containment of a position in a range, of the editor platform.
  Both ends of the range belong to it.
\<close>

definition contains :: "Range \<Rightarrow> Position \<Rightarrow> bool" where
  "contains r p = (\<not> isBefore p (range_start r) \<and> \<not> isBefore (range_end r) p)"

text \<open>The invariant of the ranges of the editor: the start is not after the end.\<close>

definition wellFormed :: "Range \<Rightarrow> bool" where
  "wellFormed r = isBeforeOrEqual (range_start r) (range_end r)"

section \<open>Parsed nodes\<close>

text \<open>
  A token of the parser carries the positions where it starts and ends.
\<close>

record Token =
  token_start :: Position
  token_end :: Position

text \<open>
  The parser's nodes: \<^verbatim>\<open>Rule\<close> and \<^verbatim>\<open>HtmlNode\<close> both extend \<^verbatim>\<open>Node\<close>. The validator casts the
  node it is given to one or the other and reads the fields of that interface. Reading a
  field that the object does not have gives \<^verbatim>\<open>undefined\<close> in the source: \<open>None\<close> here.
  The field \<^verbatim>\<open>type\<close> is a string, \<^verbatim>\<open>parent\<close> is absent at the root, \<^verbatim>\<open>close\<close> is absent for an
  element without closing tag.
\<close>

datatype Node =
    Rule (type: string) (parent: "Node option") (selectorToken: "Token option")
  | HtmlNode (type: string) (parent: "Node option") (open_token: Token) (close_token: "Token option")
where
  "selectorToken (HtmlNode t p a b) = None"
| "close_token (Rule t p s) = None"

text \<open>
  Modelled from the spec: \<^verbatim>\<open>getInnerRange\<close> of \<^verbatim>\<open>./util\<close>, which is not among the sources.
  The inner span of an element is the span between its opening and its closing construct:
  from the end of the opening tag to the start of the closing tag. An element without
  closing counterpart has none.
\<close>

fun getInnerRange :: "Node \<Rightarrow> Range option" where
  "getInnerRange (HtmlNode t p opn (Some cls)) = Some (newRange (token_end opn) (token_start cls))"
| "getInnerRange _ = None"

section \<open>The location validator\<close>

text \<open>
  \<^verbatim>\<open>isValidLocationForEmmetAbbreviation(currentNode, syntax, position)\<close>. The test
  \<^verbatim>\<open>isStyleSheet\<close> belongs to an imported helper library and is a parameter. Where the
  source returns the falsy \<^verbatim>\<open>undefined\<close> of \<^verbatim>\<open>selectorToken && ...\<close>, the model returns
  \<open>False\<close>: the declared result type is boolean and the only caller negates the result.
  In the markup branch the inner range is asked for when \<^verbatim>\<open>close\<close> is present, where it
  exists.
\<close>

definition isValidLocationForEmmetAbbreviation ::
  "(string \<Rightarrow> bool) \<Rightarrow> Node option \<Rightarrow> string \<Rightarrow> Position \<Rightarrow> bool" where
  "isValidLocationForEmmetAbbreviation isStyleSheet currentNode syn position =
     (case currentNode of
        None \<Rightarrow> \<not> isStyleSheet syn
      | Some node \<Rightarrow>
          if isStyleSheet syn then
            (if type node \<noteq> ''rule'' then True
             else if (case parent node of
                        None \<Rightarrow> False
                      | Some par \<Rightarrow>
                          type par = ''rule'' \<and>
                          (case selectorToken node of
                             None \<Rightarrow> False
                           | Some tok \<Rightarrow> line (token_start tok) \<noteq> line (token_end tok)))
             then True
             else (case selectorToken node of
                     None \<Rightarrow> False
                   | Some tok \<Rightarrow> isAfter position (token_end tok)))
          else
            (if close_token node \<noteq> None then
               (case getInnerRange node of
                  None \<Rightarrow> False
                | Some inner \<Rightarrow> contains inner position)
             else False))"

section \<open>Documents, selections and the editor\<close>

text \<open>
  A document is the list of its lines and its line ending. Strings are lists of
  characters; a column counts characters of a line.
\<close>

record TextDocument =
  lines :: "string list"
  eol :: string

datatype error = IllegalArgument | IllegalLine

text \<open>
  Modelled from the spec: \<^verbatim>\<open>lineAt\<close> of the editor platform, here giving the text of
  the line directly. It fails for a line that the document does not have.
\<close>

definition lineAt :: "TextDocument \<Rightarrow> nat \<Rightarrow> error + string" where
  "lineAt doc n = (if n < length (lines doc) then Inr (lines doc ! n) else Inl IllegalLine)"

text \<open>
  Modelled from the spec: \<^verbatim>\<open>getText\<close> of the editor platform, the literal text of the
  document inside a range. The range is first adjusted to the document (a position past
  the last line becomes the end of the document, a column past the end of its line
  becomes the end of that line); lines are joined by the line ending.
\<close>

definition validatePosition :: "TextDocument \<Rightarrow> Position \<Rightarrow> Position" where
  "validatePosition doc p =
     (let n = length (lines doc) in
      if n = 0 then \<lparr>line = 0, character = 0\<rparr>
      else if n \<le> line p then \<lparr>line = n - 1, character = length (lines doc ! (n - 1))\<rparr>
      else \<lparr>line = line p, character = min (character p) (length (lines doc ! line p))\<rparr>)"

fun joinLines :: "string \<Rightarrow> string list \<Rightarrow> string" where
  "joinLines sep [] = []"
| "joinLines sep [l] = l"
| "joinLines sep (l # ls) = l @ sep @ joinLines sep ls"

definition getText :: "TextDocument \<Rightarrow> Range \<Rightarrow> string" where
  "getText doc r =
     (let s = validatePosition doc (range_start r);
          e = validatePosition doc (range_end r) in
      if lines doc = [] \<or> s = e then []
      else if line s = line e then
        drop (character s) (take (character e) (lines doc ! line s))
      else
        joinLines (eol doc)
          (drop (character s) (lines doc ! line s) #
           map (\<lambda>i. lines doc ! i) [Suc (line s) ..< line e] @
           [take (character e) (lines doc ! line e)]))"

text \<open>
  Modelled from the spec: \<^verbatim>\<open>translate\<close> of a position, of the editor platform. The deltas
  are added to line and column; the constructor of the new position rejects a negative
  line or column.
\<close>

definition translate :: "Position \<Rightarrow> int \<Rightarrow> int \<Rightarrow> error + Position" where
  "translate p lineDelta characterDelta =
     (let l = int (line p) + lineDelta; c = int (character p) + characterDelta in
      if l < 0 \<or> c < 0 then Inl IllegalArgument
      else Inr \<lparr>line = nat l, character = nat c\<rparr>)"

text \<open>
  Modelled from the spec: the selections of the editor platform. A selection has an
  anchor and an active position and says whether it is reversed. As a
  range it runs from the earlier of the two positions to the later one (its constructor
  passes anchor and active to the constructor of a range).
\<close>

record Selection =
  anchor :: Position
  active :: Position
  isReversed :: bool

definition selectionRange :: "Selection \<Rightarrow> Range" where
  "selectionRange sel = newRange (anchor sel) (active sel)"

record TextEditor =
  document :: TextDocument
  selections :: "Selection list"

section \<open>The regular expressions of the module\<close>

text \<open>
  Characters are code units below 256. The class \<^verbatim>\<open>\w\<close> is letters, digits and the
  underscore; the class \<^verbatim>\<open>\s\<close> is tab, line feed, vertical tab, form feed, carriage
  return, space and the no-break space.
\<close>

definition isWordChar :: "char \<Rightarrow> bool" where
  "isWordChar c =
     (let n = (of_char c :: nat) in
      (48 \<le> n \<and> n \<le> 57) \<or> (65 \<le> n \<and> n \<le> 90) \<or> n = 95 \<or> (97 \<le> n \<and> n \<le> 122))"

definition isWhiteSpace :: "char \<Rightarrow> bool" where
  "isWhiteSpace c = ((of_char c :: nat) \<in> set [9, 10, 11, 12, 13, 32, 160])"

text \<open>
  \<^verbatim>\<open>text.match(/<(\w+)$/)\<close>: the leftmost place where a \<^verbatim>\<open><\<close> is followed by one or more
  word characters that reach the end of the text. The result is the captured group.
\<close>

fun matchOpenTag :: "string \<Rightarrow> string option" where
  "matchOpenTag [] = None"
| "matchOpenTag (c # cs) =
     (if c = CHR ''<'' \<and> cs \<noteq> [] \<and> list_all isWordChar cs then Some cs
      else matchOpenTag cs)"

text \<open>
  \<^verbatim>\<open>text.match(/^(\s*)/)\<close> always matches; the length of its group is the length of the
  run of whitespace that the text starts with.
\<close>

definition leadingWhiteSpace :: "string \<Rightarrow> nat" where
  "leadingWhiteSpace s = length (takeWhile isWhiteSpace s)"

definition placeholder :: string where
  "placeholder = ''$TM_SELECTED_TEXT''"

text \<open>
  \<^verbatim>\<open>text.replace(/\s*\$TM_SELECTED_TEXT\s*/, '$TM_SELECTED_TEXT')\<close>: the leftmost match
  is replaced, once. A match starts where a (possibly empty) run of whitespace is followed
  by the placeholder, and takes the whitespace after the placeholder too.
\<close>

fun replacePlaceholder :: "string \<Rightarrow> string" where
  "replacePlaceholder [] = []"
| "replacePlaceholder (c # cs) =
     (let rest = dropWhile isWhiteSpace (c # cs) in
      if take (length placeholder) rest = placeholder
      then placeholder @ dropWhile isWhiteSpace (drop (length placeholder) rest)
      else c # replacePlaceholder cs)"

section \<open>The abbreviation locator\<close>

text \<open>
  \<^verbatim>\<open>getAbbreviation(document, selection, position, isHtml)\<close>, the closure inside
  \<^verbatim>\<open>expandAbbreviation\<close>. It reads the text of the selection from its parameter
  \<^verbatim>\<open>document\<close> and the current line from the editor it closes over. The fallback
  \<^verbatim>\<open>extractAbbreviation\<close> belongs to an imported helper library and is a parameter.
\<close>

definition getAbbreviation ::
  "(TextDocument \<Rightarrow> Position \<Rightarrow> error + Range \<times> string) \<Rightarrow> TextEditor \<Rightarrow>
   TextDocument \<Rightarrow> Selection \<Rightarrow> Position \<Rightarrow> bool \<Rightarrow> error + Range \<times> string" where
  "getAbbreviation extractAbbreviation editor doc selection position isHtml =
     (let rangeToReplace = selectionRange selection;
          selected = getText doc rangeToReplace in
      if \<not> isEmpty rangeToReplace then Inr (rangeToReplace, selected)
      else if isHtml then
        (case lineAt (document editor) (line position) of
           Inl e \<Rightarrow> Inl e
         | Inr currentLine \<Rightarrow>
             (let textTillPosition = take (character position) currentLine in
              case matchOpenTag textTillPosition of
                Some abbr \<Rightarrow>
                  (case translate position 0 (- (int (length abbr) + 1)) of
                     Inl e \<Rightarrow> Inl e
                   | Inr startPos \<Rightarrow> Inr (newRange startPos position, abbr))
              | None \<Rightarrow> extractAbbreviation (document editor) position))
      else extractAbbreviation (document editor) position)"

section \<open>Expansion requests\<close>

record ExpandAbbreviationInput =
  syntax_id :: string
  abbreviation_text :: string
  rangeToReplace :: Range
  textToWrap :: "string option"

text \<open>A string of the source is truthy when it is defined and not empty.\<close>

definition truthy :: "string option \<Rightarrow> bool" where
  "truthy t = (case t of None \<Rightarrow> False | Some s \<Rightarrow> s \<noteq> [])"

definition wrapText :: string where
  "wrapText = CHR 0x0A # CHR 0x09 # placeholder @ [CHR 0x0A]"

text \<open>
  The body of the loop over the selections in \<^verbatim>\<open>wrapWithAbbreviation\<close>: the range to
  replace for one selection, and the request built from it.
\<close>

definition wrapSelection ::
  "TextEditor \<Rightarrow> string \<Rightarrow> string \<Rightarrow> Selection \<Rightarrow> error + ExpandAbbreviationInput" where
  "wrapSelection editor syn abbr selection =
     (let r0 = (if isReversed selection then newRange (active selection) (anchor selection)
                else selectionRange selection) in
      case (if isEmpty r0 then
              (case lineAt (document editor) (line (range_start r0)) of
                 Inl e \<Rightarrow> Inl e
               | Inr l \<Rightarrow> Inr (newRange4 (line (range_start r0)) 0 (line (range_start r0)) (length l)))
            else Inr r0) of
        Inl e \<Rightarrow> Inl e
      | Inr r1 \<Rightarrow>
          (case lineAt (document editor) (line (range_start r1)) of
             Inl e \<Rightarrow> Inl e
           | Inr l \<Rightarrow>
               (let firstLineOfSelection = drop (character (range_start r1)) l;
                    preceedingWhiteSpace = leadingWhiteSpace firstLineOfSelection;
                    r2 = newRange4 (line (range_start r1))
                           (character (range_start r1) + preceedingWhiteSpace)
                           (line (range_end r1)) (character (range_end r1))
                in Inr \<lparr>syntax_id = syn, abbreviation_text = abbr, rangeToReplace = r2,
                         textToWrap = Some wrapText\<rparr>)))"

fun wrapSelections ::
  "TextEditor \<Rightarrow> string \<Rightarrow> string \<Rightarrow> Selection list \<Rightarrow> error + ExpandAbbreviationInput list" where
  "wrapSelections editor syn abbr [] = Inr []"
| "wrapSelections editor syn abbr (s # ss) =
     (case wrapSelection editor syn abbr s of
        Inl e \<Rightarrow> Inl e
      | Inr input \<Rightarrow>
          (case wrapSelections editor syn abbr ss of
             Inl e \<Rightarrow> Inl e
           | Inr inputs \<Rightarrow> Inr (input # inputs)))"


section \<open>Collaborators and observable effects\<close>

text \<open>
  The options object of the expansion engine: its \<^verbatim>\<open>profile\<close> is a table from names
  to values, the rest is opaque.
\<close>

datatype jsvalue = Num int | Str string | Bool bool

record 'a ExpandOptions =
  profile :: "(string \<times> jsvalue) list"
  other :: 'a

text \<open>
  What the module does to the outside world: it calls the expansion engine, it shows
  error messages, and it asks the editor to insert a snippet, at one range or at a list of
  ranges. The insertion of a snippet is the only call of the module that edits the
  document.
\<close>

datatype location = At Range | AtAll "Range list"

datatype 'a event =
    ExpandCall string "'a ExpandOptions"
  | ShowErrorMessage string
  | InsertSnippet string location

fun isInsertSnippet :: "'a event \<Rightarrow> bool" where
  "isInsertSnippet (InsertSnippet t l) = True"
| "isInsertSnippet _ = False"

fun isExpandCall :: "'a event \<Rightarrow> bool" where
  "isExpandCall (ExpandCall a opts) = True"
| "isExpandCall _ = False"

text \<open>
  What a command returns: nothing, or a promise that resolves to a boolean.
\<close>

datatype thenable = NoValue | Resolves bool

text \<open>
  The collaborators, none of which is part of the module: the helper library's
  \<^verbatim>\<open>isStyleSheet\<close>, \<^verbatim>\<open>isAbbreviationValid\<close>, \<^verbatim>\<open>extractAbbreviation\<close> and \<^verbatim>\<open>getExpandOptions\<close>,
  \<^verbatim>\<open>getNode\<close> on a parsed document, the configuration section \<^verbatim>\<open>emmet\<close>, the expansion
  engine \<^verbatim>\<open>expand\<close> (\<open>None\<close> when it throws), and the boolean that the editor's promise
  for an insertion resolves to.
\<close>

record ('a, 'c, 'r) Env =
  isStyleSheet :: "string \<Rightarrow> bool"
  isAbbreviationValid :: "string \<Rightarrow> string \<Rightarrow> bool"
  extractAbbreviation :: "TextDocument \<Rightarrow> Position \<Rightarrow> error + Range \<times> string"
  getNode :: "'r \<Rightarrow> Position \<Rightarrow> Node option"
  emmetConfig :: "string \<Rightarrow> 'c"
  getExpandOptions :: "'c \<Rightarrow> 'c \<Rightarrow> string \<Rightarrow> string option \<Rightarrow> 'a ExpandOptions"
  expand :: "string \<Rightarrow> 'a ExpandOptions \<Rightarrow> string option"
  insertSnippet :: "string \<Rightarrow> location \<Rightarrow> bool"

section \<open>Single expansion\<close>

text \<open>
  \<^verbatim>\<open>expandAbbr(input)\<close>, in two parts: the options that it passes to the engine (the lines
  before the \<^verbatim>\<open>try\<close>), and the call with its \<^verbatim>\<open>catch\<close>. The result is the expanded text
  (\<open>None\<close> for \<^verbatim>\<open>undefined\<close>) and the effects, in order.
\<close>

definition expandOptionsFor ::
  "('a, 'c, 'r) Env \<Rightarrow> ExpandAbbreviationInput \<Rightarrow> 'a ExpandOptions" where
  "expandOptionsFor env input =
     (let expandOptions =
            getExpandOptions env (emmetConfig env ''syntaxProfiles'')
              (emmetConfig env ''variables'') (syntax_id input) (textToWrap input) in
      if truthy (textToWrap input) \<and> \<not> isSingleLine (rangeToReplace input)
      then expandOptions\<lparr>profile := AList.update ''inlineBreak'' (Num 1) (profile expandOptions)\<rparr>
      else expandOptions)"

definition expandAbbr ::
  "('a, 'c, 'r) Env \<Rightarrow> ExpandAbbreviationInput \<Rightarrow> string option \<times> 'a event list" where
  "expandAbbr env input =
     (let expandOptions = expandOptionsFor env input in
      case expand env (abbreviation_text input) expandOptions of
        None \<Rightarrow>
          (None, [ExpandCall (abbreviation_text input) expandOptions,
                  ShowErrorMessage ''Failed to expand abbreviation''])
      | Some expandedText \<Rightarrow>
          (Some (if truthy (textToWrap input) \<and> CHR 0x0A \<notin> set expandedText
                 then replacePlaceholder expandedText else expandedText),
           [ExpandCall (abbreviation_text input) expandOptions]))"

section \<open>The multi-cursor orchestrator\<close>

text \<open>
  The loop of the path with different snippets: each request is expanded, and a snippet
  is inserted at its range when the expanded text is truthy.
\<close>

fun insertEach :: "('a, 'c, 'r) Env \<Rightarrow> ExpandAbbreviationInput list \<Rightarrow> 'a event list" where
  "insertEach env [] = []"
| "insertEach env (expandAbbrInput # rest) =
     (case expandAbbr env expandAbbrInput of
        (expandedText, evs) \<Rightarrow>
          evs @
          (case expandedText of
             None \<Rightarrow> []
           | Some t \<Rightarrow> if t \<noteq> [] then [InsertSnippet t (At (rangeToReplace expandAbbrInput))] else []) @
          insertEach env rest)"

text \<open>
  The range that the path with one snippet builds for each request: a new range from the
  four numbers of the request's range.
\<close>

definition copyRange :: "Range \<Rightarrow> Range" where
  "copyRange r =
     newRange4 (line (range_start r)) (character (range_start r))
       (line (range_end r)) (character (range_end r))"

text \<open>
  \<^verbatim>\<open>expandAbbreviationInRange(editor, expandAbbrList, insertSameSnippet)\<close>: what it returns
  and the effects, in order. \<^verbatim>\<open>Promise.all(...).then(() => Promise.resolve(true))\<close> resolves
  to true once every insertion has finished.
\<close>

definition expandAbbreviationInRange ::
  "('a, 'c, 'r) Env \<Rightarrow> ExpandAbbreviationInput list \<Rightarrow> bool \<Rightarrow> thenable \<times> 'a event list" where
  "expandAbbreviationInRange env expandAbbrList insertSameSnippet =
     (case expandAbbrList of
        [] \<Rightarrow> (NoValue, [])
      | anyExpandAbbrInput # _ \<Rightarrow>
          if \<not> insertSameSnippet then (Resolves True, insertEach env expandAbbrList)
          else
            (case expandAbbr env anyExpandAbbrInput of
               (expandedText, evs) \<Rightarrow>
                 (let allRanges = map (\<lambda>v. copyRange (rangeToReplace v)) expandAbbrList in
                  case expandedText of
                    None \<Rightarrow> (NoValue, evs)
                  | Some t \<Rightarrow>
                      if t \<noteq> [] then
                        (Resolves (insertSnippet env t (AtAll allRanges)),
                         evs @ [InsertSnippet t (AtAll allRanges)])
                      else (NoValue, evs))))"

section \<open>The two commands\<close>

text \<open>
  \<^verbatim>\<open>wrapWithAbbreviation\<close> after its guards: the callback that receives the abbreviation
  (\<open>None\<close> when the prompt was dismissed).
\<close>

definition wrapWithAbbreviation ::
  "('a, 'c, 'r) Env \<Rightarrow> TextEditor \<Rightarrow> string \<Rightarrow> string option \<Rightarrow>
   error + thenable \<times> 'a event list" where
  "wrapWithAbbreviation env editor syn abbr =
     (case abbr of
        None \<Rightarrow> Inr (NoValue, [])
      | Some a \<Rightarrow>
          if a = [] \<or> list_all isWhiteSpace a \<or> \<not> isAbbreviationValid env syn a
          then Inr (NoValue, [])
          else
            (case wrapSelections editor syn a (selections editor) of
               Inl e \<Rightarrow> Inl e
             | Inr expandAbbrList \<Rightarrow> Inr (expandAbbreviationInRange env expandAbbrList True)))"

text \<open>
  The loop over the selections in \<^verbatim>\<open>expandAbbreviation\<close>, with the variables it updates.
\<close>

record 'a LoopState =
  abbreviationList :: "ExpandAbbreviationInput list"
  firstAbbreviation :: "string option"
  allAbbreviationsSame :: bool
  messages :: "'a event list"

definition expandSelection ::
  "('a, 'c, 'r) Env \<Rightarrow> TextEditor \<Rightarrow> string \<Rightarrow> 'r \<Rightarrow> 'a LoopState \<Rightarrow> Selection \<Rightarrow>
   error + 'a LoopState" where
  "expandSelection env editor syn rootNode st selection =
     (let position = (if isReversed selection then anchor selection else active selection) in
      case getAbbreviation (extractAbbreviation env) editor (document editor) selection position
             (syn = ''html'') of
        Inl e \<Rightarrow> Inl e
      | Inr (rangeToReplace', abbr) \<Rightarrow>
          if \<not> isAbbreviationValid env syn abbr
          then Inr (st\<lparr>messages := messages st @ [ShowErrorMessage ''Emmet: Invalid abbreviation'']\<rparr>)
          else if \<not> isValidLocationForEmmetAbbreviation (isStyleSheet env)
                      (getNode env rootNode position) syn position
          then Inr st
          else
            (let st' =
               (if \<not> truthy (firstAbbreviation st) then st\<lparr>firstAbbreviation := Some abbr\<rparr>
                else if allAbbreviationsSame st \<and> firstAbbreviation st \<noteq> Some abbr
                then st\<lparr>allAbbreviationsSame := False\<rparr>
                else st)
             in Inr (st'\<lparr>abbreviationList :=
                          abbreviationList st' @
                          [\<lparr>syntax_id = syn, abbreviation_text = abbr,
                            rangeToReplace = rangeToReplace', textToWrap = None\<rparr>]\<rparr>)))"

fun expandSelections ::
  "('a, 'c, 'r) Env \<Rightarrow> TextEditor \<Rightarrow> string \<Rightarrow> 'r \<Rightarrow> 'a LoopState \<Rightarrow> Selection list \<Rightarrow>
   error + 'a LoopState" where
  "expandSelections env editor syn rootNode st [] = Inr st"
| "expandSelections env editor syn rootNode st (s # ss) =
     (case expandSelection env editor syn rootNode st s of
        Inl e \<Rightarrow> Inl e
      | Inr st' \<Rightarrow> expandSelections env editor syn rootNode st' ss)"

text \<open>
  \<^verbatim>\<open>expandAbbreviation\<close> after the dialect is resolved: \<open>rootNode\<close> is what the parser
  returned for the document, \<open>None\<close> when it failed.
\<close>

definition expandAbbreviation ::
  "('a, 'c, 'r) Env \<Rightarrow> TextEditor \<Rightarrow> string \<Rightarrow> 'r option \<Rightarrow>
   error + thenable \<times> 'a event list" where
  "expandAbbreviation env editor syn rootNode =
     (case rootNode of
        None \<Rightarrow> Inr (NoValue, [])
      | Some root \<Rightarrow>
          (case expandSelections env editor syn root
                  \<lparr>abbreviationList = [], firstAbbreviation = None,
                   allAbbreviationsSame = True, messages = []\<rparr> (selections editor) of
             Inl e \<Rightarrow> Inl e
           | Inr st \<Rightarrow>
               (case expandAbbreviationInRange env (abbreviationList st) (allAbbreviationsSame st) of
                  (res, evs) \<Rightarrow> Inr (res, messages st @ evs))))"

text \<open>
  The invariant of that loop: the first abbreviation recorded is the abbreviation of the
  first request, it is not empty, and the flag says whether all requests so far carry it.
\<close>

definition flagInvariant :: "'a LoopState \<Rightarrow> bool" where
  "flagInvariant st =
     (case abbreviationList st of
        [] \<Rightarrow> firstAbbreviation st = None \<and> allAbbreviationsSame st
      | x # xs \<Rightarrow>
          firstAbbreviation st = Some (abbreviation_text x) \<and> abbreviation_text x \<noteq> [] \<and>
          allAbbreviationsSame st =
            list_all (\<lambda>i. abbreviation_text i = abbreviation_text x) (x # xs))"

section \<open>Sample collaborators for closed evaluations\<close>

text \<open>
  A sample dialect test for closed evaluations: the stylesheet syntaxes that the
  validator's own comment names (css, less, scss).
\<close>

definition isStyleSheet_sample :: "string \<Rightarrow> bool" where
  "isStyleSheet_sample syn = (syn \<in> set [''css'', ''less'', ''scss''])"

text \<open>
  A sample environment: a toy engine that puts the abbreviation between angle brackets,
  an editor that applies every insertion, no parsed nodes, no fallback abbreviation. The
  second environment differs in its engine, which throws on every abbreviation.
\<close>

definition sampleEnv :: "(unit, unit, unit) Env" where
  "sampleEnv =
     \<lparr>isStyleSheet = isStyleSheet_sample,
      isAbbreviationValid = (\<lambda>syn a. a \<noteq> []),
      extractAbbreviation = (\<lambda>doc p. Inr (newRange p p, [])),
      getNode = (\<lambda>root p. None),
      emmetConfig = (\<lambda>key. ()),
      getExpandOptions = (\<lambda>profiles vars syn wrap. \<lparr>profile = [], other = ()\<rparr>),
      expand = (\<lambda>a opts. Some (''<'' @ a @ ''>'')),
      insertSnippet = (\<lambda>t l. True)\<rparr>"

definition failingEnv :: "(unit, unit, unit) Env" where
  "failingEnv = sampleEnv\<lparr>expand := (\<lambda>a opts. None)\<rparr>"

definition sampleRequest :: "nat \<Rightarrow> ExpandAbbreviationInput" where
  "sampleRequest n =
     \<lparr>syntax_id = ''html'', abbreviation_text = ''div'',
      rangeToReplace = newRange4 n 0 n 3, textToWrap = None\<rparr>"

definition sampleDocument :: TextDocument where
  "sampleDocument = \<lparr>lines = [''     abc'', ''<div'', ''abc''], eol = [CHR 0x0A]\<rparr>"

definition sampleEditor :: "Selection list \<Rightarrow> TextEditor" where
  "sampleEditor sels = \<lparr>document = sampleDocument, selections = sels\<rparr>"

definition cursorAt :: "nat \<Rightarrow> nat \<Rightarrow> Selection" where
  "cursorAt l c =
     \<lparr>anchor = \<lparr>line = l, character = c\<rparr>, active = \<lparr>line = l, character = c\<rparr>,
      isReversed = False\<rparr>"

definition selectionFromTo :: "nat \<Rightarrow> nat \<Rightarrow> nat \<Rightarrow> nat \<Rightarrow> Selection" where
  "selectionFromTo l c l' c' =
     \<lparr>anchor = \<lparr>line = l, character = c\<rparr>, active = \<lparr>line = l', character = c'\<rparr>,
      isReversed = False\<rparr>"

text \<open>Sample nodes: an element with closing tag, and a rule with a selector.\<close>

definition sampleElement :: Node where
  "sampleElement =
     HtmlNode ''div'' None
       \<lparr>token_start = \<lparr>line = 0, character = 0\<rparr>, token_end = \<lparr>line = 0, character = 5\<rparr>\<rparr>
       (Some \<lparr>token_start = \<lparr>line = 0, character = 8\<rparr>, token_end = \<lparr>line = 0, character = 14\<rparr>\<rparr>)"

definition sampleRule :: "Node option \<Rightarrow> nat \<Rightarrow> Node" where
  "sampleRule par l =
     Rule ''rule'' par
       (Some \<lparr>token_start = \<lparr>line = l, character = 0\<rparr>, token_end = \<lparr>line = 2, character = 10\<rparr>\<rparr>)"

section \<open>Properties of positions and ranges\<close>

lemma isBefore_irrefl: "\<not> isBefore p p"
  by (simp add: isBefore_def)

lemma isAfter_irrefl: "\<not> isAfter p p"
  by (simp add: isAfter_def)

lemma newRange_ordered:
  "isBeforeOrEqual a b \<Longrightarrow> newRange a b = \<lparr>range_start = a, range_end = b\<rparr>"
  by (auto simp: newRange_def isBeforeOrEqual_def isBefore_def)

lemma contains_newRange:
  assumes "isBeforeOrEqual a b"
  shows "contains (newRange a b) p = (isBeforeOrEqual a p \<and> isBeforeOrEqual p b)"
proof -
  have "contains \<lparr>range_start = a, range_end = b\<rparr> p = (\<not> isBefore p a \<and> \<not> isBefore b p)"
    by (simp add: contains_def)
  moreover have "(\<not> isBefore p a) = isBeforeOrEqual a p"
    unfolding isBefore_def isBeforeOrEqual_def by (cases p, cases a) auto
  moreover have "(\<not> isBefore b p) = isBeforeOrEqual p b"
    unfolding isBefore_def isBeforeOrEqual_def by (cases p, cases b) auto
  ultimately show ?thesis
    using assms by (simp add: newRange_ordered)
qed

lemma copyRange_wellFormed:
  assumes "wellFormed r"
  shows "copyRange r = r"
proof -
  have ends: "\<lparr>line = line (range_start r), character = character (range_start r)\<rparr> = range_start r"
    "\<lparr>line = line (range_end r), character = character (range_end r)\<rparr> = range_end r"
    by simp_all
  have "copyRange r = newRange (range_start r) (range_end r)"
    unfolding copyRange_def newRange4_def by (simp only: ends)
  also have "\<dots> = \<lparr>range_start = range_start r, range_end = range_end r\<rparr>"
    using assms by (simp add: newRange_ordered wellFormed_def)
  also have "\<dots> = r" by simp
  finally show ?thesis .
qed

lemma newRange_commute: "newRange a b = newRange b a"
proof -
  have "isBefore a b \<or> isBefore b a \<or> a = b"
    unfolding isBefore_def by (cases a, cases b) auto
  moreover have "\<not> (isBefore a b \<and> isBefore b a)"
    unfolding isBefore_def by auto
  ultimately show ?thesis
    unfolding newRange_def by (auto simp: isBefore_irrefl)
qed

section \<open>Properties of the location validator\<close>

text \<open>
  Claim C1, as the code has it: when no parsed node encloses the position, the validator
  returns the negation of the stylesheet test, whatever the position: false for a
  stylesheet dialect and true for a markup dialect. The claim states the two results the
  other way round; the evaluation below shows the code's answers for "css" and "html".
\<close>

theorem validator_no_node:
  "isValidLocationForEmmetAbbreviation isStyle None syn position = (\<not> isStyle syn)"
  by (simp add: isValidLocationForEmmetAbbreviation_def)

theorem validator_no_node_counterexample:
  "\<not> isValidLocationForEmmetAbbreviation isStyleSheet_sample None ''css'' \<lparr>line = 0, character = 0\<rparr>
   \<and> isValidLocationForEmmetAbbreviation isStyleSheet_sample None ''html'' \<lparr>line = 0, character = 0\<rparr>"
  by (simp add: isValidLocationForEmmetAbbreviation_def isStyleSheet_sample_def)

text \<open>
  Claim C3: in a markup dialect, for a node with a closing counterpart the validator
  returns true exactly when the position lies within the element's inner span, which runs
  from the end of the opening construct to the start of the closing one, both ends
  included; for a node without closing counterpart it returns false.
\<close>

theorem validator_element:
  assumes "\<not> isStyle syn"
  shows "case close_token node of
           None \<Rightarrow> \<not> isValidLocationForEmmetAbbreviation isStyle (Some node) syn position
         | Some cls \<Rightarrow>
             getInnerRange node = Some (newRange (token_end (open_token node)) (token_start cls)) \<and>
             isValidLocationForEmmetAbbreviation isStyle (Some node) syn position =
               contains (newRange (token_end (open_token node)) (token_start cls)) position \<and>
             (isBeforeOrEqual (token_end (open_token node)) (token_start cls) \<longrightarrow>
                isValidLocationForEmmetAbbreviation isStyle (Some node) syn position =
                  (isBeforeOrEqual (token_end (open_token node)) position \<and>
                   isBeforeOrEqual position (token_start cls)))"
  using assms
  by (cases node)
     (auto simp: isValidLocationForEmmetAbbreviation_def contains_newRange split: option.splits)

text \<open>
  Claim C4: in a stylesheet dialect, for a node of kind "rule" to which the exception for
  nested rules with a multi-line selector does not apply, the validator returns true
  exactly when the position is strictly after the end of the selector span; the end of
  the selector span itself is not valid.
\<close>

theorem validator_rule_body:
  assumes "isStyle syn" and "type node = ''rule''" and "selectorToken node = Some tok"
    and "\<not> (\<exists>par. parent node = Some par \<and> type par = ''rule'' \<and>
              line (token_start tok) \<noteq> line (token_end tok))"
  shows "isValidLocationForEmmetAbbreviation isStyle (Some node) syn position =
           isAfter position (token_end tok) \<and>
         \<not> isValidLocationForEmmetAbbreviation isStyle (Some node) syn (token_end tok)"
  using assms
  by (auto simp: isValidLocationForEmmetAbbreviation_def isAfter_irrefl split: option.splits)

text \<open>
  Claim C5: in a stylesheet dialect, for a node of kind "rule" whose parent is of kind
  "rule" too and whose selector span starts and ends on different lines, the validator
  returns true at every position.
\<close>

theorem validator_nested_multiline:
  assumes "isStyle syn" and "type node = ''rule''" and "parent node = Some par"
    and "type par = ''rule''" and "selectorToken node = Some tok"
    and "line (token_start tok) \<noteq> line (token_end tok)"
  shows "isValidLocationForEmmetAbbreviation isStyle (Some node) syn position"
  using assms
  by (simp add: isValidLocationForEmmetAbbreviation_def)

theorem validator_element_witness:
  "\<not> isStyleSheet_sample ''html'' \<and>
   isValidLocationForEmmetAbbreviation isStyleSheet_sample (Some sampleElement) ''html''
     \<lparr>line = 0, character = 5\<rparr> \<and>
   \<not> isValidLocationForEmmetAbbreviation isStyleSheet_sample (Some sampleElement) ''html''
     \<lparr>line = 0, character = 9\<rparr>"
proof -
  have h: "\<not> isStyleSheet_sample ''html''"
    by (simp add: isStyleSheet_sample_def)
  show ?thesis
    using h validator_element [of isStyleSheet_sample "''html''" sampleElement "\<lparr>line = 0, character = 5\<rparr>"]
      validator_element [of isStyleSheet_sample "''html''" sampleElement "\<lparr>line = 0, character = 9\<rparr>"]
    by (simp add: sampleElement_def contains_def newRange_def isBefore_def)
qed

theorem validator_rule_body_witness:
  "isStyleSheet_sample ''css'' \<and>
   isValidLocationForEmmetAbbreviation isStyleSheet_sample (Some (sampleRule None 2)) ''css''
     \<lparr>line = 2, character = 11\<rparr> \<and>
   \<not> isValidLocationForEmmetAbbreviation isStyleSheet_sample (Some (sampleRule None 2)) ''css''
     \<lparr>line = 2, character = 10\<rparr>"
proof -
  have h: "isStyleSheet_sample ''css''"
    by (simp add: isStyleSheet_sample_def)
  show ?thesis
    using h validator_rule_body [of isStyleSheet_sample "''css''" "sampleRule None 2"
        "\<lparr>token_start = \<lparr>line = 2, character = 0\<rparr>, token_end = \<lparr>line = 2, character = 10\<rparr>\<rparr>"
        "\<lparr>line = 2, character = 11\<rparr>"]
    by (simp add: sampleRule_def isAfter_def)
qed

theorem validator_nested_multiline_witness:
  "isStyleSheet_sample ''scss'' \<and>
   isValidLocationForEmmetAbbreviation isStyleSheet_sample
     (Some (sampleRule (Some (sampleRule None 2)) 1)) ''scss'' \<lparr>line = 1, character = 3\<rparr>"
proof -
  have h: "isStyleSheet_sample ''scss''"
    by (simp add: isStyleSheet_sample_def)
  show ?thesis
    using h validator_nested_multiline [of isStyleSheet_sample "''scss''"
        "sampleRule (Some (sampleRule None 2)) 1"
        "sampleRule None 2"
        "\<lparr>token_start = \<lparr>line = 1, character = 0\<rparr>, token_end = \<lparr>line = 2, character = 10\<rparr>\<rparr>"
        "\<lparr>line = 1, character = 3\<rparr>"]
    by (simp add: sampleRule_def)
qed

section \<open>Properties of the abbreviation locator\<close>

lemma lt_not_word: "\<not> isWordChar CHR ''<''"
  by (simp add: isWordChar_def)

lemma matchOpenTag_suffix:
  assumes "w \<noteq> []" and "list_all isWordChar w"
  shows "matchOpenTag (pre @ CHR ''<'' # w) = Some w"
proof (induction pre)
  case Nil
  show ?case using assms by simp
next
  case (Cons c pre)
  have "\<not> list_all isWordChar (pre @ CHR ''<'' # w)"
    by (simp add: lt_not_word)
  then show ?case using Cons by simp
qed

text \<open>
  Claim C6: for an empty selection in the markup dialect, when the text of the cursor's
  line up to the cursor column ends with \<^verbatim>\<open><\<close> followed by one or more word characters, the
  locator returns the word run as the abbreviation, and the range from the column of the
  \<^verbatim>\<open><\<close> to the cursor. No step of the locator fails on the way. For the line \<^verbatim>\<open><div\<close> and
  the cursor at column 4 the result is "div" and columns 0 to 4.
\<close>

theorem locator_unclosed_tag:
  assumes "isEmpty (selectionRange selection)"
    and "lineAt (document editor) (line position) = Inr currentLine"
    and "take (character position) currentLine = pre @ CHR ''<'' # w"
    and "w \<noteq> []" and "list_all isWordChar w"
  shows "getAbbreviation extract editor doc selection position True =
           Inr (\<lparr>range_start = \<lparr>line = line position,
                                character = character position - (length w + 1)\<rparr>,
                 range_end = position\<rparr>, w) \<and>
         length w + 1 \<le> character position \<and>
         (character position \<le> length currentLine \<longrightarrow>
            character position - (length w + 1) = length pre)"
proof -
  have len: "min (character position) (length currentLine) = length pre + 1 + length w"
    using arg_cong [OF assms(3), of length] by simp
  then have le: "length w + 1 \<le> character position" by arith
  have m: "matchOpenTag (take (character position) currentLine) = Some w"
    using assms(3-5) by (simp add: matchOpenTag_suffix)
  have t: "translate position 0 (- (int (length w) + 1)) =
             Inr \<lparr>line = line position, character = character position - (length w + 1)\<rparr>"
    using le by (simp add: translate_def Let_def nat_diff_distrib' ) 
  have b: "isBeforeOrEqual \<lparr>line = line position, character = character position - (length w + 1)\<rparr> position"
    by (simp add: isBeforeOrEqual_def)
  have "getAbbreviation extract editor doc selection position True =
          Inr (newRange \<lparr>line = line position, character = character position - (length w + 1)\<rparr> position, w)"
    using assms(1,2) m t by (simp add: getAbbreviation_def Let_def)
  moreover have "character position \<le> length currentLine \<longrightarrow>
            character position - (length w + 1) = length pre"
    using len by arith
  ultimately show ?thesis using b le by (simp add: newRange_ordered)
qed

theorem locator_unclosed_tag_witness:
  "getAbbreviation (extractAbbreviation sampleEnv) (sampleEditor [cursorAt 1 4]) sampleDocument
     (cursorAt 1 4) \<lparr>line = 1, character = 4\<rparr> True =
     Inr (\<lparr>range_start = \<lparr>line = 1, character = 0\<rparr>, range_end = \<lparr>line = 1, character = 4\<rparr>\<rparr>,
          ''div'')"
  using locator_unclosed_tag [of "cursorAt 1 4" "sampleEditor [cursorAt 1 4]"
      "\<lparr>line = 1, character = 4\<rparr>" "''<div''" "[]" "''div''" "extractAbbreviation sampleEnv"
      sampleDocument]
  by (simp add: cursorAt_def sampleEditor_def sampleDocument_def selectionRange_def
      newRange_def isBefore_def isEmpty_def lineAt_def isWordChar_def)

text \<open>
  Claim C7: for a non-empty selection the locator returns the selection as the range and
  the text of the document inside it as the abbreviation, whatever the dialect.
\<close>

theorem locator_selection:
  assumes "\<not> isEmpty (selectionRange selection)"
  shows "getAbbreviation extract editor doc selection position isHtml =
           Inr (selectionRange selection, getText doc (selectionRange selection))"
  using assms by (simp add: getAbbreviation_def Let_def)

theorem locator_selection_witness:
  "\<not> isEmpty (selectionRange (selectionFromTo 2 0 2 3)) \<and>
   getAbbreviation (extractAbbreviation sampleEnv) (sampleEditor []) sampleDocument
     (selectionFromTo 2 0 2 3) \<lparr>line = 2, character = 3\<rparr> False =
     Inr (\<lparr>range_start = \<lparr>line = 2, character = 0\<rparr>, range_end = \<lparr>line = 2, character = 3\<rparr>\<rparr>,
          ''abc'') \<and>
   getAbbreviation (extractAbbreviation sampleEnv) (sampleEditor []) sampleDocument
     (selectionFromTo 2 0 2 3) \<lparr>line = 2, character = 3\<rparr> True =
     Inr (\<lparr>range_start = \<lparr>line = 2, character = 0\<rparr>, range_end = \<lparr>line = 2, character = 3\<rparr>\<rparr>,
          ''abc'')"
proof -
  have h: "\<not> isEmpty (selectionRange (selectionFromTo 2 0 2 3))"
    by (simp add: isEmpty_def selectionRange_def selectionFromTo_def newRange_def isBefore_def)
  have r: "selectionRange (selectionFromTo 2 0 2 3) =
             \<lparr>range_start = \<lparr>line = 2, character = 0\<rparr>, range_end = \<lparr>line = 2, character = 3\<rparr>\<rparr>"
    by (simp add: selectionRange_def selectionFromTo_def newRange_def isBefore_def)
  have g: "getText sampleDocument
             \<lparr>range_start = \<lparr>line = 2, character = 0\<rparr>, range_end = \<lparr>line = 2, character = 3\<rparr>\<rparr> = ''abc''"
    by (simp add: getText_def validatePosition_def sampleDocument_def Let_def)
  show ?thesis
    using h locator_selection [OF h, of "extractAbbreviation sampleEnv" "sampleEditor []"
        sampleDocument "\<lparr>line = 2, character = 3\<rparr>" False]
      locator_selection [OF h, of "extractAbbreviation sampleEnv" "sampleEditor []"
        sampleDocument "\<lparr>line = 2, character = 3\<rparr>" True]
    by (simp add: r g)
qed

section \<open>Properties of the orchestrator\<close>

lemma expandAbbr_calls:
  "filter isExpandCall (snd (expandAbbr env input)) =
     [ExpandCall (abbreviation_text input) (expandOptionsFor env input)]"
  by (simp add: expandAbbr_def Let_def split: option.splits)

lemma expandAbbr_no_insert:
  "filter isInsertSnippet (snd (expandAbbr env input)) = []"
  by (simp add: expandAbbr_def Let_def split: option.splits)

lemma uniform_path:
  "expandAbbreviationInRange env (first # rest) True =
     (case fst (expandAbbr env first) of
        None \<Rightarrow> (NoValue, snd (expandAbbr env first))
      | Some t \<Rightarrow>
          if t \<noteq> [] then
            (Resolves (insertSnippet env t
                (AtAll (map (\<lambda>v. copyRange (rangeToReplace v)) (first # rest)))),
             snd (expandAbbr env first) @
             [InsertSnippet t (AtAll (map (\<lambda>v. copyRange (rangeToReplace v)) (first # rest)))])
          else (NoValue, snd (expandAbbr env first)))"
  by (cases "expandAbbr env first")
     (simp add: expandAbbreviationInRange_def Let_def split: option.splits)

lemma map_copyRange:
  "\<forall>i \<in> set xs. wellFormed (rangeToReplace i) \<Longrightarrow>
   map (\<lambda>v. copyRange (rangeToReplace v)) xs = map rangeToReplace xs"
  by (induction xs) (simp_all add: copyRange_wellFormed)

text \<open>
  Claim C9: when the expansion engine throws for a request, the single expansion shows
  an error message and returns nothing; and when the expansion of the first request
  returns nothing, the path with one snippet returns no value and asks for no insertion,
  so that the document stays as it is.
\<close>

theorem expand_failure:
  "(expand env (abbreviation_text input) (expandOptionsFor env input) = None \<longrightarrow>
      expandAbbr env input =
        (None, [ExpandCall (abbreviation_text input) (expandOptionsFor env input),
                ShowErrorMessage ''Failed to expand abbreviation''])) \<and>
   (fst (expandAbbr env input) = None \<longrightarrow>
      fst (expandAbbreviationInRange env (input # rest) True) = NoValue \<and>
      filter isInsertSnippet (snd (expandAbbreviationInRange env (input # rest) True)) = [])"
proof -
  have a: "expand env (abbreviation_text input) (expandOptionsFor env input) = None \<longrightarrow>
      expandAbbr env input =
        (None, [ExpandCall (abbreviation_text input) (expandOptionsFor env input),
                ShowErrorMessage ''Failed to expand abbreviation''])"
    by (simp add: expandAbbr_def Let_def)
  have b: "fst (expandAbbr env input) = None \<longrightarrow>
      expandAbbreviationInRange env (input # rest) True = (NoValue, snd (expandAbbr env input))"
    by (simp add: uniform_path)
  show ?thesis using a b by (simp add: expandAbbr_no_insert)
qed

theorem expand_failure_witness:
  "expand failingEnv (abbreviation_text (sampleRequest 0))
     (expandOptionsFor failingEnv (sampleRequest 0)) = None \<and>
   fst (expandAbbr failingEnv (sampleRequest 0)) = None \<and>
   snd (expandAbbr failingEnv (sampleRequest 0)) =
     [ExpandCall ''div'' \<lparr>profile = [], other = ()\<rparr>,
      ShowErrorMessage ''Failed to expand abbreviation''] \<and>
   fst (expandAbbreviationInRange failingEnv
          [sampleRequest 0, sampleRequest 1, sampleRequest 2] True) = NoValue \<and>
   filter isInsertSnippet
     (snd (expandAbbreviationInRange failingEnv
             [sampleRequest 0, sampleRequest 1, sampleRequest 2] True)) = []"
proof -
  have h: "expand failingEnv (abbreviation_text (sampleRequest 0))
             (expandOptionsFor failingEnv (sampleRequest 0)) = None"
    by (simp add: failingEnv_def)
  have o: "expandOptionsFor failingEnv (sampleRequest 0) = \<lparr>profile = [], other = ()\<rparr>"
    by (simp add: expandOptionsFor_def failingEnv_def sampleEnv_def sampleRequest_def truthy_def)
  have a: "abbreviation_text (sampleRequest 0) = ''div''"
    by (simp add: sampleRequest_def)
  show ?thesis
    using h expand_failure [of failingEnv "sampleRequest 0" "[sampleRequest 1, sampleRequest 2]"]
    by (simp add: o a)
qed

text \<open>
  The flag that \<^verbatim>\<open>expandAbbreviation\<close> passes to the orchestrator: when the validity check
  of the helper library rejects the empty abbreviation, the flag is true exactly when all
  requests of the list carry the same abbreviation text.
\<close>

lemma expandSelection_invariant:
  assumes valid: "\<And>a. isAbbreviationValid env syn a \<Longrightarrow> a \<noteq> []"
    and inv: "flagInvariant st"
    and step: "expandSelection env editor syn rootNode st selection = Inr st'"
  shows "flagInvariant st'"
proof -
  let ?position = "if isReversed selection then anchor selection else active selection"
  obtain r abbr where g: "getAbbreviation (extractAbbreviation env) editor (document editor)
      selection ?position (syn = ''html'') = Inr (r, abbr)"
    using step by (cases "getAbbreviation (extractAbbreviation env) editor (document editor)
      selection ?position (syn = ''html'')") (auto simp: expandSelection_def Let_def)
  let ?new = "\<lparr>syntax_id = syn, abbreviation_text = abbr, rangeToReplace = r, textToWrap = None\<rparr>"
  show ?thesis
  proof (cases "isAbbreviationValid env syn abbr")
    case False
    then have "st' = st\<lparr>messages := messages st @ [ShowErrorMessage ''Emmet: Invalid abbreviation'']\<rparr>"
      using step g by (simp add: expandSelection_def Let_def)
    then show ?thesis using inv by (simp add: flagInvariant_def split: list.splits)
  next
    case True
    then have ne: "abbr \<noteq> []" by (rule valid)
    show ?thesis
    proof (cases "isValidLocationForEmmetAbbreviation (isStyleSheet env)
                    (getNode env rootNode ?position) syn ?position")
      case False
      then have "st' = st"
        using step g True by (simp add: expandSelection_def Let_def)
      then show ?thesis using inv by simp
    next
      case loc: True
      have st': "st' =
          (if \<not> truthy (firstAbbreviation st) then st\<lparr>firstAbbreviation := Some abbr\<rparr>
           else if allAbbreviationsSame st \<and> firstAbbreviation st \<noteq> Some abbr
           then st\<lparr>allAbbreviationsSame := False\<rparr>
           else st)\<lparr>abbreviationList :=
             abbreviationList
               (if \<not> truthy (firstAbbreviation st) then st\<lparr>firstAbbreviation := Some abbr\<rparr>
                else if allAbbreviationsSame st \<and> firstAbbreviation st \<noteq> Some abbr
                then st\<lparr>allAbbreviationsSame := False\<rparr>
                else st) @ [?new]\<rparr>"
        using step g True loc by (simp add: expandSelection_def Let_def)
      show ?thesis
      proof (cases "abbreviationList st")
        case Nil
        then have "firstAbbreviation st = None" and "allAbbreviationsSame st"
          using inv by (simp_all add: flagInvariant_def)
        then have "st' = st\<lparr>firstAbbreviation := Some abbr, abbreviationList := [?new]\<rparr>"
          using st' Nil by (simp add: truthy_def)
        then show ?thesis using ne \<open>allAbbreviationsSame st\<close> by (simp add: flagInvariant_def)
      next
        case (Cons x xs)
        then have f: "firstAbbreviation st = Some (abbreviation_text x)"
          and n: "abbreviation_text x \<noteq> []"
          and fl: "allAbbreviationsSame st =
                     list_all (\<lambda>i. abbreviation_text i = abbreviation_text x) (x # xs)"
          using inv by (simp_all add: flagInvariant_def)
        have t: "truthy (firstAbbreviation st)" using f n by (simp add: truthy_def)
        show ?thesis
        proof (cases "allAbbreviationsSame st \<and> abbreviation_text x \<noteq> abbr")
          case True
          then have "st' = st\<lparr>allAbbreviationsSame := False,
                              abbreviationList := x # xs @ [?new]\<rparr>"
            using st' t f Cons by simp
          then show ?thesis using f n True by (auto simp: flagInvariant_def)
        next
          case False
          then have "st' = st\<lparr>abbreviationList := x # xs @ [?new]\<rparr>"
            using st' t f Cons by auto
          then show ?thesis using f n fl False by (auto simp: flagInvariant_def)
        qed
      qed
    qed
  qed
qed

lemma expandSelections_invariant:
  assumes valid: "\<And>a. isAbbreviationValid env syn a \<Longrightarrow> a \<noteq> []"
  shows "flagInvariant st \<Longrightarrow> expandSelections env editor syn rootNode st sels = Inr st' \<Longrightarrow>
         flagInvariant st'"
proof (induction sels arbitrary: st)
  case Nil
  then show ?case by simp
next
  case (Cons s ss)
  from Cons.prems(2) obtain st1 where
    s1: "expandSelection env editor syn rootNode st s = Inr st1"
    and s2: "expandSelections env editor syn rootNode st1 ss = Inr st'"
    by (auto split: sum.splits)
  have "flagInvariant st1"
    using valid Cons.prems(1) s1 by (rule expandSelection_invariant)
  then show ?case using s2 by (rule Cons.IH)
qed

lemma expandSelections_uniform_flag:
  assumes valid: "\<And>a. isAbbreviationValid env syn a \<Longrightarrow> a \<noteq> []"
    and run: "expandSelections env editor syn rootNode
                \<lparr>abbreviationList = [], firstAbbreviation = None,
                 allAbbreviationsSame = True, messages = []\<rparr> sels = Inr st"
  shows "allAbbreviationsSame st =
           (\<forall>i \<in> set (abbreviationList st). \<forall>j \<in> set (abbreviationList st).
              abbreviation_text i = abbreviation_text j)"
proof -
  have init: "flagInvariant \<lparr>abbreviationList = [], firstAbbreviation = None,
                 allAbbreviationsSame = True, messages = []\<rparr>"
    by (simp add: flagInvariant_def)
  have inv: "flagInvariant st"
    using valid init run by (rule expandSelections_invariant)
  show ?thesis
  proof (cases "abbreviationList st")
    case Nil
    then show ?thesis using inv by (simp add: flagInvariant_def)
  next
    case (Cons x xs)
    then have "allAbbreviationsSame st =
        (\<forall>i \<in> set (x # xs). abbreviation_text i = abbreviation_text x)"
      using inv by (simp add: flagInvariant_def list_all_iff)
    then show ?thesis unfolding Cons by auto
  qed
qed

text \<open>
  Claim C8, as the code has it: in the path with one snippet the engine is called exactly
  once, for the first request; when the expanded text is not empty there is exactly one
  insertion, at the list of the ranges of all requests, and when the expansion returns
  nothing or the empty text there is no insertion. The claim promises one insertion in
  every case; the evaluation below has three requests with the same abbreviation, an
  engine that throws, and no insertion.
\<close>

theorem uniform_insertion:
  assumes "\<forall>i \<in> set (first # rest). wellFormed (rangeToReplace i)"
  shows "filter isExpandCall (snd (expandAbbreviationInRange env (first # rest) True)) =
           [ExpandCall (abbreviation_text first) (expandOptionsFor env first)] \<and>
         filter isInsertSnippet (snd (expandAbbreviationInRange env (first # rest) True)) =
           (case fst (expandAbbr env first) of
              None \<Rightarrow> []
            | Some t \<Rightarrow>
                if t \<noteq> [] then [InsertSnippet t (AtAll (map rangeToReplace (first # rest)))]
                else [])"
proof -
  have m: "map (\<lambda>v. copyRange (rangeToReplace v)) (first # rest) = map rangeToReplace (first # rest)"
    using assms by (rule map_copyRange)
  show ?thesis
    unfolding uniform_path m
    by (simp add: expandAbbr_calls expandAbbr_no_insert split: option.splits)
qed

theorem uniform_insertion_counterexample:
  "map abbreviation_text [sampleRequest 0, sampleRequest 1, sampleRequest 2] =
     [''div'', ''div'', ''div''] \<and>
   length (filter isInsertSnippet
     (snd (expandAbbreviationInRange failingEnv
             [sampleRequest 0, sampleRequest 1, sampleRequest 2] True))) = 0"
  by (simp add: uniform_path expandAbbr_def Let_def failingEnv_def sampleRequest_def)

theorem uniform_insertion_witness:
  "wellFormed (rangeToReplace (sampleRequest 0)) \<and>
   wellFormed (rangeToReplace (sampleRequest 1)) \<and>
   wellFormed (rangeToReplace (sampleRequest 2)) \<and>
   snd (expandAbbreviationInRange sampleEnv
          [sampleRequest 0, sampleRequest 1, sampleRequest 2] True) =
     [ExpandCall ''div'' \<lparr>profile = [], other = ()\<rparr>,
      InsertSnippet ''<div>''
        (AtAll [\<lparr>range_start = \<lparr>line = 0, character = 0\<rparr>, range_end = \<lparr>line = 0, character = 3\<rparr>\<rparr>,
                \<lparr>range_start = \<lparr>line = 1, character = 0\<rparr>, range_end = \<lparr>line = 1, character = 3\<rparr>\<rparr>,
                \<lparr>range_start = \<lparr>line = 2, character = 0\<rparr>, range_end = \<lparr>line = 2, character = 3\<rparr>\<rparr>])]"
proof -
  have r: "rangeToReplace (sampleRequest n) =
             \<lparr>range_start = \<lparr>line = n, character = 0\<rparr>, range_end = \<lparr>line = n, character = 3\<rparr>\<rparr>" for n
    by (simp add: sampleRequest_def newRange4_def newRange_def isBefore_def)
  have h: "\<forall>i \<in> set [sampleRequest 0, sampleRequest 1, sampleRequest 2]. wellFormed (rangeToReplace i)"
    by (simp add: r wellFormed_def isBeforeOrEqual_def)
  have e: "expandAbbr sampleEnv (sampleRequest 0) =
             (Some ''<div>'', [ExpandCall ''div'' \<lparr>profile = [], other = ()\<rparr>])"
    by (simp add: expandAbbr_def expandOptionsFor_def sampleEnv_def sampleRequest_def truthy_def)
  have u: "snd (expandAbbreviationInRange sampleEnv
          [sampleRequest 0, sampleRequest 1, sampleRequest 2] True) =
       filter isExpandCall (snd (expandAbbreviationInRange sampleEnv
          [sampleRequest 0, sampleRequest 1, sampleRequest 2] True)) @
       filter isInsertSnippet (snd (expandAbbreviationInRange sampleEnv
          [sampleRequest 0, sampleRequest 1, sampleRequest 2] True))"
    by (simp add: uniform_path e)
  have o: "expandOptionsFor sampleEnv (sampleRequest 0) = \<lparr>profile = [], other = ()\<rparr>"
    by (simp add: expandOptionsFor_def sampleEnv_def sampleRequest_def truthy_def)
  have a: "abbreviation_text (sampleRequest 0) = ''div''"
    by (simp add: sampleRequest_def)
  show ?thesis
    using h uniform_insertion [OF h, of sampleEnv] u
    by (simp add: e r o a)
qed

text \<open>
  Claim C2, as the code has it: for the empty list the orchestrator returns no value and
  has no effect. For a list with a first request, the path with different snippets
  returns a promise that resolves to true; the path with one snippet returns the editor's
  promise for the insertion when the expanded text is not empty, and no value otherwise.
  The claim promises a promise for every non-empty list, which tells whether an edit was
  applied; the evaluation below has one request and an engine that throws: no value in
  one path, and true without any insertion in the other.
\<close>

theorem orchestrator_result:
  "expandAbbreviationInRange env [] uniform = (NoValue, []) \<and>
   fst (expandAbbreviationInRange env (first # rest) False) = Resolves True \<and>
   fst (expandAbbreviationInRange env (first # rest) True) =
     (case fst (expandAbbr env first) of
        None \<Rightarrow> NoValue
      | Some t \<Rightarrow>
          if t \<noteq> [] then
            Resolves (insertSnippet env t
              (AtAll (map (\<lambda>v. copyRange (rangeToReplace v)) (first # rest))))
          else NoValue)"
proof -
  have "expandAbbreviationInRange env [] uniform = (NoValue, [])"
    by (simp add: expandAbbreviationInRange_def)
  moreover have "fst (expandAbbreviationInRange env (first # rest) False) = Resolves True"
    by (simp add: expandAbbreviationInRange_def)
  ultimately show ?thesis
    by (simp add: uniform_path split: option.splits)
qed

theorem orchestrator_result_counterexample:
  "[sampleRequest 0] \<noteq> [] \<and>
   fst (expandAbbreviationInRange failingEnv [sampleRequest 0] True) = NoValue \<and>
   expandAbbreviationInRange failingEnv [sampleRequest 0] False =
     (Resolves True,
      [ExpandCall ''div'' \<lparr>profile = [], other = ()\<rparr>,
       ShowErrorMessage ''Failed to expand abbreviation''])"
proof -
  have e: "expandAbbr failingEnv (sampleRequest 0) =
             (None, [ExpandCall ''div'' \<lparr>profile = [], other = ()\<rparr>,
                     ShowErrorMessage ''Failed to expand abbreviation''])"
    by (simp add: expandAbbr_def expandOptionsFor_def failingEnv_def sampleEnv_def
        sampleRequest_def truthy_def)
  show ?thesis
    by (simp add: uniform_path e expandAbbreviationInRange_def)
qed

section \<open>Properties of the wrap command\<close>

text \<open>
  The range that the wrap command computes for a selection, whenever the advanced start
  does not pass the end of the range: a reversed selection gives the same range as its
  mirror image, an empty range is widened to the whole line, the start moves right by the
  length of the whitespace run, and the end stays.
\<close>

lemma wrapSelection_trimmed:
  assumes l: "lineAt (document editor) (line (range_start (selectionRange selection))) = Inr l"
    and r: "r = (if isEmpty (selectionRange selection)
                 then \<lparr>range_start = \<lparr>line = line (range_start (selectionRange selection)), character = 0\<rparr>,
                       range_end = \<lparr>line = line (range_start (selectionRange selection)),
                                    character = length l\<rparr>\<rparr>
                 else selectionRange selection)"
    and w: "w = leadingWhiteSpace (drop (character (range_start r)) l)"
    and fits: "isBeforeOrEqual \<lparr>line = line (range_start r), character = character (range_start r) + w\<rparr>
                 (range_end r)"
  shows "wrapSelection editor syn abbr selection =
           Inr \<lparr>syntax_id = syn, abbreviation_text = abbr,
                rangeToReplace =
                  \<lparr>range_start = \<lparr>line = line (range_start r),
                                   character = character (range_start r) + w\<rparr>,
                   range_end = range_end r\<rparr>,
                textToWrap = Some wrapText\<rparr>"
proof -
  let ?r0 = "if isReversed selection then newRange (active selection) (anchor selection)
             else selectionRange selection"
  have r0: "?r0 = selectionRange selection"
    by (simp add: selectionRange_def newRange_commute [of "active selection"])
  have r1: "(if isEmpty ?r0 then
              (case lineAt (document editor) (line (range_start ?r0)) of
                 Inl e \<Rightarrow> Inl e
               | Inr l \<Rightarrow> Inr (newRange4 (line (range_start ?r0)) 0 (line (range_start ?r0)) (length l)))
            else Inr ?r0) = Inr r"
    unfolding r0 using l r
    by (simp add: newRange4_def newRange_ordered isBeforeOrEqual_def)
  have sl: "line (range_start r) = line (range_start (selectionRange selection))"
    using r by simp
  have e: "\<lparr>line = line (range_end r), character = character (range_end r)\<rparr> = range_end r"
    by simp
  have n: "newRange4 (line (range_start r)) (character (range_start r) + w)
             (line (range_end r)) (character (range_end r)) =
           \<lparr>range_start = \<lparr>line = line (range_start r), character = character (range_start r) + w\<rparr>,
            range_end = range_end r\<rparr>"
    unfolding newRange4_def e using fits by (rule newRange_ordered)
  show ?thesis
    unfolding wrapSelection_def Let_def r1
    using l n w by (simp add: sl)
qed

text \<open>
  Claim C10, at a selection that covers the first two of the five spaces before the text
  of line 0: the run of whitespace is counted to the end of the line and not to the end of
  the selection, the advanced start (column 5) lies after the end (column 2), and the
  constructor of the range swaps them. The end of the range has moved from column 2 to
  column 5, where the claim leaves it unchanged.
\<close>

theorem wrap_whitespace_selection:
  "wrapSelection (sampleEditor [selectionFromTo 0 0 0 2]) ''html'' ''div''
     (selectionFromTo 0 0 0 2) =
     Inr \<lparr>syntax_id = ''html'', abbreviation_text = ''div'',
          rangeToReplace = \<lparr>range_start = \<lparr>line = 0, character = 2\<rparr>,
                            range_end = \<lparr>line = 0, character = 5\<rparr>\<rparr>,
          textToWrap = Some wrapText\<rparr>"
  by (simp add: wrapSelection_def sampleEditor_def sampleDocument_def selectionFromTo_def
      selectionRange_def newRange_def newRange4_def isBefore_def isEmpty_def lineAt_def
      leadingWhiteSpace_def isWhiteSpace_def Let_def)

end
